theory Spec2Isabelle
  imports Complex_Main
begin

section \<open>Numbers and vectors\<close>

text \<open>
  The scene animator of \<^verbatim>\<open>components/ThreeScene.tsx\<close> and the gesture loop of
  \<^verbatim>\<open>App.tsx\<close> compute with JavaScript numbers. They are embedded as real numbers, and
  the arithmetic of the source is kept operation by operation; the rounding of each
  operation to an IEEE double is not part of the model, so the theorems state of a run of
  frames only what does not rest on how far that rounding lets a value move.

  The three typed arrays of the scene are \<^verbatim>\<open>Float32Array\<close>s. A store into one converts the
  number to the nearest float32, ties to even, which is what \<^verbatim>\<open>Math.fround\<close> computes:
  with \<open>e\<close> the binary exponent of \<open>x\<close> (at least \<open>- 126\<close>, where the subnormal numbers
  begin) the float32 numbers around \<open>x\<close> are the multiples of \<open>2 powi (e - 23)\<close>. The model
  has no infinities: numbers beyond the float32 range are outside it. A number read from
  such an array is a float32 already, and storing it again leaves it as it is.
\<close>

definition round_half_even :: "real \<Rightarrow> int" where
  "round_half_even q =
     (let f = \<lfloor>q\<rfloor>
      in if q - of_int f < 1 / 2 then f
         else if 1 / 2 < q - of_int f then f + 1
         else if even f then f else f + 1)"

definition fround :: "real \<Rightarrow> real" where
  "fround x =
     (if x = 0 then 0
      else
        let e = max \<lfloor>log 2 \<bar>x\<bar>\<rfloor> (- 126);
            ulp = 2 powi (e - 23)
        in of_int (round_half_even (x / ulp)) * ulp)"

text \<open>\<^verbatim>\<open>THREE.Vector3\<close>: three numeric fields.\<close>

record vector3 =
  vx :: real
  vy :: real
  vz :: real

definition origin :: vector3 where
  "origin = \<lparr>vx = 0, vy = 0, vz = 0\<rparr>"

text \<open>
  \<^verbatim>\<open>Vector3.lerp(v, alpha)\<close> of the three.js library, as the library defines it:
  \<^verbatim>\<open>this.x += (v.x - this.x) * alpha\<close>, and the same for \<^verbatim>\<open>y\<close> and \<^verbatim>\<open>z\<close>.
\<close>

definition lerp :: "vector3 \<Rightarrow> vector3 \<Rightarrow> real \<Rightarrow> vector3" where
  "lerp this v alpha =
     \<lparr>vx = vx this + (vx v - vx this) * alpha,
      vy = vy this + (vy v - vy this) * alpha,
      vz = vz this + (vz v - vz this) * alpha\<rparr>"


section \<open>The scene state\<close>

text \<open>
  A memory panel: the mesh that \<^verbatim>\<open>addMemory\<close> adds to \<^verbatim>\<open>memoriesGroupRef\<close>, with the
  opacity of its material, its position, and \<^verbatim>\<open>userData.birth\<close> (absent until it is set).
\<close>

record memory_panel =
  opacity :: real
  position :: vector3
  birth :: "real option"

text \<open>
  The mutable cells of the component: the refs, the rotation of \<^verbatim>\<open>mainGroupRef\<close>, the two
  typed arrays of the vortex (\<^verbatim>\<open>vVel\<close> and the position attribute of \<^verbatim>\<open>vGeo\<close>), the
  position attribute of the trail, the two animated fields of \<^verbatim>\<open>vMat\<close>, and the children of
  \<^verbatim>\<open>memoriesGroupRef\<close>.
\<close>

record scene =
  targetHandPos :: vector3
  currentHandPos :: vector3
  isPinchingRef :: bool
  rotation_x :: real
  rotation_y :: real
  vPositions :: "real list"
  vVel :: "real list"
  tPositions :: "real list"
  vMat_opacity :: real
  vMat_size :: real
  memories :: "memory_panel list"

definition vortexCount :: nat where
  "vortexCount = 3000"

definition trailCount :: nat where
  "trailCount = 100"

section \<open>Scene construction\<close>

text \<open>
  The construction loop of the vortex draws four random numbers per particle. The draws are
  an input: \<open>rnd k\<close> is the result of the \<open>k\<close>-th call of \<^verbatim>\<open>Math.random()\<close>.
\<close>

definition vortex_particle :: "(nat \<Rightarrow> real) \<Rightarrow> nat \<Rightarrow> real list" where
  "vortex_particle rnd i =
     (let r = 5 + rnd (4 * i) * 25;
          theta = rnd (4 * i + 1) * pi * 2
      in [fround (cos theta * r), fround ((rnd (4 * i + 2) - 0.2) * 40), fround (sin theta * r)])"

definition init_vPos :: "(nat \<Rightarrow> real) \<Rightarrow> real list" where
  "init_vPos rnd = concat (map (vortex_particle rnd) [0..<vortexCount])"

definition init_vVel :: "(nat \<Rightarrow> real) \<Rightarrow> real list" where
  "init_vVel rnd = map (\<lambda>i. fround (0.2 + rnd (4 * i + 3) * 0.5)) [0..<vortexCount]"

definition init_scene :: "(nat \<Rightarrow> real) \<Rightarrow> scene" where
  "init_scene rnd =
     \<lparr>targetHandPos = \<lparr>vx = 0, vy = 0, vz = 0\<rparr>,
      currentHandPos = \<lparr>vx = 0, vy = 0, vz = 0\<rparr>,
      isPinchingRef = False,
      rotation_x = 0,
      rotation_y = 0,
      vPositions = init_vPos rnd,
      vVel = init_vVel rnd,
      tPositions = replicate (trailCount * 3) (fround 0),
      vMat_opacity = 0.4,
      vMat_size = 0.12,
      memories = []\<rparr>"

section \<open>The imperative handle\<close>

definition updateHandInteraction :: "real \<Rightarrow> real \<Rightarrow> bool \<Rightarrow> scene \<Rightarrow> scene" where
  "updateHandInteraction x y isPinching s =
     (let targetRX = (y - 0.5) * 0.3;
          targetRY = (x - 0.5) * 0.6
      in s\<lparr>targetHandPos := \<lparr>vx = (x - 0.5) * 50, vy = (0.5 - y) * 40, vz = 10\<rparr>,
            isPinchingRef := isPinching,
            rotation_x := rotation_x s + (targetRX - rotation_x s) * 0.05,
            rotation_y := rotation_y s + (targetRY - rotation_y s) * 0.05\<rparr>)"

text \<open>
  \<^verbatim>\<open>addMemory\<close> starts loading the texture; the panel is created in the load callback.
  \<open>new_memory\<close> is the mesh that the callback builds from its three random draws and the
  clock's elapsed time \<open>now\<close>, and \<open>addMemory_loaded\<close> is the callback.
\<close>

definition new_memory :: "real \<Rightarrow> real \<Rightarrow> real \<Rightarrow> real \<Rightarrow> memory_panel" where
  "new_memory r1 r2 r3 now =
     (let angle = r1 * pi * 2;
          radius = 12 + r2 * 5;
          height = r3 * 25 - 5
      in \<lparr>opacity = 0,
          position = \<lparr>vx = cos angle * radius, vy = height, vz = sin angle * radius\<rparr>,
          birth = Some now\<rparr>)"

definition addMemory_loaded :: "real \<Rightarrow> real \<Rightarrow> real \<Rightarrow> real \<Rightarrow> scene \<Rightarrow> scene" where
  "addMemory_loaded r1 r2 r3 now s = s\<lparr>memories := memories s @ [new_memory r1 r2 r3 now]\<rparr>"

section \<open>The animation frame\<close>

text \<open>Step 1, the body of the vortex loop for particle \<open>i\<close>, and the loop.\<close>

definition vortex_step :: "real \<Rightarrow> real list \<Rightarrow> nat \<Rightarrow> real list \<Rightarrow> real list" where
  "vortex_step elapsed vel i p =
     (let x = p ! (i * 3);
          z = p ! (i * 3 + 2);
          angle = vel ! i * 0.01;
          p1 = p[i * 3 := fround (x * cos angle - z * sin angle)];
          p2 = p1[i * 3 + 2 := fround (x * sin angle + z * cos angle)]
      in p2[i * 3 + 1 := fround (p2 ! (i * 3 + 1) + sin (elapsed + real i) * 0.01)])"

function vortex_loop :: "real \<Rightarrow> real list \<Rightarrow> nat \<Rightarrow> nat \<Rightarrow> real list \<Rightarrow> real list" where
  "vortex_loop elapsed vel n i p =
     (if i < n then vortex_loop elapsed vel n (Suc i) (vortex_step elapsed vel i p) else p)"
  by pat_completeness auto
termination
  by (relation "measure (\<lambda>(elapsed, vel, n, i, p). n - i)") auto

declare vortex_loop.simps [simp del]

text \<open>Step 2, the body of the trail loop for slot \<open>i\<close>, and the loop, which counts down.\<close>

definition trail_copy :: "nat \<Rightarrow> real list \<Rightarrow> real list" where
  "trail_copy i t =
     (let t1 = t[i * 3 := t ! ((i - 1) * 3)];
          t2 = t1[i * 3 + 1 := t1 ! ((i - 1) * 3 + 1)]
      in t2[i * 3 + 2 := t2 ! ((i - 1) * 3 + 2)])"

function trail_loop :: "nat \<Rightarrow> real list \<Rightarrow> real list" where
  "trail_loop i t = (if i > 0 then trail_loop (i - 1) (trail_copy i t) else t)"
  by pat_completeness auto
termination
  by (relation "measure (\<lambda>(i, t). i)") auto

declare trail_loop.simps [simp del]

text \<open>Step 4, the body of the loop over the memory panels.\<close>

definition birth_or_0 :: "memory_panel \<Rightarrow> real" where
  "birth_or_0 m = (case birth m of None \<Rightarrow> 0 | Some b \<Rightarrow> b)"

definition memory_frame :: "real \<Rightarrow> memory_panel \<Rightarrow> memory_panel" where
  "memory_frame elapsed m =
     (let age = elapsed - birth_or_0 m;
          m1 = (if age < 2 then m\<lparr>opacity := age / 2\<rparr> else m)
      in m1\<lparr>position := (position m1)
              \<lparr>vy := vy (position m1) + sin (elapsed + vx (position m1)) * 0.01\<rparr>\<rparr>)"

text \<open>One call of \<^verbatim>\<open>animate\<close>, at the clock's elapsed time.\<close>

definition animate :: "real \<Rightarrow> scene \<Rightarrow> scene" where
  "animate elapsed s =
     (let vp = vortex_loop elapsed (vVel s) vortexCount 0 (vPositions s);
          cur = lerp (currentHandPos s) (targetHandPos s) 0.15;
          tp = trail_loop (trailCount - 1) (tPositions s);
          tp0 = tp[0 := fround (vx cur)];
          tp1 = tp0[1 := fround (vy cur)];
          tp2 = tp1[2 := fround (vz cur)]
      in s\<lparr>vPositions := vp,
            currentHandPos := cur,
            tPositions := tp2,
            vMat_opacity := (if isPinchingRef s then 0.8 else 0.4),
            vMat_size := (if isPinchingRef s then 0.25 else 0.12),
            memories := map (memory_frame elapsed) (memories s)\<rparr>)"

text \<open>A run of frames, one per elapsed time of the list.\<close>

fun frames :: "real list \<Rightarrow> scene \<Rightarrow> scene" where
  "frames [] s = s"
| "frames (e # es) s = frames es (animate e s)"

section \<open>The gesture loop\<close>

record landmark =
  lx :: real
  ly :: real

text \<open>
  The result of \<^verbatim>\<open>handTrackingService.detect()\<close>, an input of the loop: it may be null,
  and it carries the flag and the landmarks.
\<close>

record detection =
  detected :: bool
  landmarks :: "landmark list"

record app =
  handDetected :: bool
  sceneRef :: "scene option"

datatype error = TypeError

definition pinch_distance :: "landmark \<Rightarrow> landmark \<Rightarrow> real" where
  "pinch_distance thumbTip indexTip =
     sqrt ((lx thumbTip - lx indexTip)\<^sup>2 + (ly thumbTip - ly indexTip)\<^sup>2)"

definition isPinching :: "landmark \<Rightarrow> landmark \<Rightarrow> bool" where
  "isPinching thumbTip indexTip = (pinch_distance thumbTip indexTip < 0.06)"

text \<open>The condition \<^verbatim>\<open>result && result.detected\<close> of the loop.\<close>

definition hand_present :: "detection option \<Rightarrow> bool" where
  "hand_present result = (case result of None \<Rightarrow> False | Some r \<Rightarrow> detected r)"

text \<open>
  One run of the body of \<^verbatim>\<open>detectLoop\<close>. Reading a field of a landmark that the list
  does not have throws a \<^verbatim>\<open>TypeError\<close>: landmarks 4 and 8 are read on every detection,
  landmark 9 only when the scene is mounted.
\<close>

definition detectLoop :: "detection option \<Rightarrow> app \<Rightarrow> error + app" where
  "detectLoop result a =
     (case result of
        None \<Rightarrow> Inr (a\<lparr>handDetected := False\<rparr>)
      | Some r \<Rightarrow>
          if detected r then
            (if length (landmarks r) \<le> 8 then Inl TypeError
             else
               let thumbTip = landmarks r ! 4;
                   indexTip = landmarks r ! 8
               in (case sceneRef a of
                     None \<Rightarrow> Inr (a\<lparr>handDetected := True\<rparr>)
                   | Some sc \<Rightarrow>
                       if length (landmarks r) \<le> 9 then Inl TypeError
                       else
                         let palmCenter = landmarks r ! 9
                         in Inr (a\<lparr>handDetected := True,
                                   sceneRef := Some (updateHandInteraction (lx palmCenter)
                                     (ly palmCenter) (isPinching thumbTip indexTip) sc)\<rparr>)))
          else Inr (a\<lparr>handDetected := False\<rparr>))"

section \<open>Concrete inputs\<close>

text \<open>
  Inputs at which the theorems below are instantiated: a scene built with every random draw
  equal to 0, the scene after one hand sample at the right edge, the scene with one memory
  panel loaded at time 0, a detection of 21 landmarks whose thumb tip is at distance \<open>d\<close>
  of the index tip, and the two states of the application around them.
\<close>

definition zero_draws :: "nat \<Rightarrow> real" where
  "zero_draws k = 0"

definition hand_right :: scene where
  "hand_right = updateHandInteraction 1 0.5 False (init_scene zero_draws)"

definition one_memory :: scene where
  "one_memory = addMemory_loaded 0 0 0 0 (init_scene zero_draws)"

definition hand_at :: "real \<Rightarrow> detection" where
  "hand_at d = \<lparr>detected = True,
     landmarks = (replicate 21 \<lparr>lx = 0, ly = 0\<rparr>)[4 := \<lparr>lx = d, ly = 0\<rparr>]\<rparr>"

definition mounted :: app where
  "mounted = \<lparr>handDetected = False, sceneRef = Some (init_scene zero_draws)\<rparr>"

definition tracked :: app where
  "tracked = \<lparr>handDetected = True, sceneRef = Some hand_right\<rparr>"

section \<open>Rounding to float32\<close>

lemma fround_0 [simp]: "fround 0 = 0"
  by (simp add: fround_def)

text \<open>Inside the binade of exponent \<open>e\<close> the float32 numbers are the multiples of \<open>2 powi (e - 23)\<close>.\<close>

lemma fround_binade:
  assumes "2 powi e \<le> \<bar>x\<bar>" and "\<bar>x\<bar> < 2 powi (e + 1)" and "- 126 \<le> e"
  shows "fround x = of_int (round_half_even (x / 2 powi (e - 23))) * 2 powi (e - 23)"
proof -
  have "(0::real) < 2 powi e"
    by (rule zero_less_power_int) simp
  then have pos: "0 < \<bar>x\<bar>"
    using assms(1) by linarith
  have p: "(2::real) powr (of_int k) = 2 powi k" for k
    by (simp add: powr_real_of_int')
  have "(2::real) powr (of_int e + 1) = 2 powi (e + 1)"
    using p[of "e + 1"] by simp
  then have "\<lfloor>log 2 \<bar>x\<bar>\<rfloor> = e"
    using assms(1,2) pos p[of e] by (simp add: floor_log_eq_powr_iff)
  then show ?thesis
    using pos assms(3) by (simp add: fround_def Let_def max_def)
qed

lemma round_half_even_int [simp]: "round_half_even (of_int n) = n"
  by (simp add: round_half_even_def)

lemma round_half_even_numeral [simp]:
  "round_half_even (numeral k) = numeral k"
  "round_half_even (- numeral k) = - numeral k"
  using round_half_even_int[of "numeral k"] round_half_even_int[of "- numeral k"] by simp_all

lemma round_half_even_near:
  assumes "of_int n - 1 / 2 < q" and "q < of_int n + 1 / 2"
  shows "round_half_even q = n"
proof -
  have "\<lfloor>q\<rfloor> = n \<or> \<lfloor>q\<rfloor> = n - 1" using assms by linarith
  then show ?thesis
  proof
    assume "\<lfloor>q\<rfloor> = n"
    then show ?thesis using assms(2) by (simp add: round_half_even_def Let_def)
  next
    assume "\<lfloor>q\<rfloor> = n - 1"
    then show ?thesis using assms(1) by (simp add: round_half_even_def Let_def)
  qed
qed


text \<open>The numbers that the concrete inputs store.\<close>

lemma fround_exact:
  "fround 5 = 5" "fround (- 8) = - 8" "fround 3.75 = 3.75" "fround 1.5 = 1.5"
  "fround 6.9375 = 6.9375"
  using fround_binade[of 2 5] fround_binade[of 3 "- 8"] fround_binade[of 1 "3.75"]
    fround_binade[of 0 "1.5"] fround_binade[of 2 "6.9375"]
  by (simp_all add: power_int_def power_divide)

lemma fround_2775: "fround 2.775 = 11639194 / 4194304"
  using fround_binade[of 1 "2.775"] round_half_even_near[of 11639194 "2.775 * 4194304"]
  by (simp add: power_int_def power_divide)






section \<open>What a frame leaves alone, and what it computes\<close>

lemma animate_fields [simp]:
  "targetHandPos (animate e s) = targetHandPos s"
  "isPinchingRef (animate e s) = isPinchingRef s"
  "rotation_x (animate e s) = rotation_x s"
  "rotation_y (animate e s) = rotation_y s"
  "vVel (animate e s) = vVel s"
  "currentHandPos (animate e s) = lerp (currentHandPos s) (targetHandPos s) 0.15"
  "memories (animate e s) = map (memory_frame e) (memories s)"
  "vPositions (animate e s) = vortex_loop e (vVel s) vortexCount 0 (vPositions s)"
  by (simp_all add: animate_def Let_def)

lemma frames_target [simp]: "targetHandPos (frames es s) = targetHandPos s"
  by (induction es arbitrary: s) simp_all


lemma frames_pinching [simp]: "isPinchingRef (frames es s) = isPinchingRef s"
  by (induction es arbitrary: s) simp_all

lemma tPositions_init [simp]: "tPositions (init_scene rnd) = replicate (trailCount * 3) 0"
  by (simp add: init_scene_def)

lemma vPositions_init [simp]: "vPositions (init_scene rnd) = init_vPos rnd"
  by (simp add: init_scene_def)

lemma vVel_init [simp]: "vVel (init_scene rnd) = init_vVel rnd"
  by (simp add: init_scene_def)

lemma length_init_vPos [simp]: "length (init_vPos rnd) = vortexCount * 3"
  by (simp add: init_vPos_def length_concat vortex_particle_def Let_def comp_def sum_list_triv)

lemma length_init_vVel [simp]: "length (init_vVel rnd) = vortexCount"
  by (simp add: init_vVel_def)


lemma hand_right_fields:
  "targetHandPos hand_right = \<lparr>vx = 25, vy = 0, vz = 10\<rparr>"
  "currentHandPos hand_right = \<lparr>vx = 0, vy = 0, vz = 0\<rparr>"
  "rotation_x hand_right = 0"
  "rotation_y hand_right = 0.015"
  "tPositions hand_right = replicate (trailCount * 3) 0"
  by (simp_all add: hand_right_def updateHandInteraction_def init_scene_def Let_def)

lemma hand_right_frames:
  "currentHandPos (animate e hand_right) = \<lparr>vx = 3.75, vy = 0, vz = 1.5\<rparr>"
  "currentHandPos (animate e' (animate e hand_right)) = \<lparr>vx = 6.9375, vy = 0, vz = 2.775\<rparr>"
  by (simp_all add: hand_right_fields lerp_def)

lemma memories_one_memory: "memories one_memory = [new_memory 0 0 0 0]"
  by (simp add: one_memory_def addMemory_loaded_def init_scene_def)

lemma hand_at_fields:
  "detected (hand_at d)" "length (landmarks (hand_at d)) = 21"
  "landmarks (hand_at d) ! 4 = \<lparr>lx = d, ly = 0\<rparr>"
  "landmarks (hand_at d) ! 8 = \<lparr>lx = 0, ly = 0\<rparr>"
  "landmarks (hand_at d) ! 9 = \<lparr>lx = 0, ly = 0\<rparr>"
  by (simp_all add: hand_at_def)

lemma pinch_distance_hand_at:
  "0 \<le> d \<Longrightarrow> pinch_distance (landmarks (hand_at d) ! 4) (landmarks (hand_at d) ! 8) = d"
  by (simp add: hand_at_fields pinch_distance_def)

section \<open>The trail loop\<close>

text \<open>
  The loop keeps the length of the array, and when slot \<open>i\<close> is inside the array it leaves
  every component \<open>k\<close> from 3 to \<open>3 i + 2\<close> with the old value of component \<open>k - 3\<close>.
\<close>

lemma length_trail_copy [simp]: "length (trail_copy i t) = length t"
  by (simp add: trail_copy_def Let_def)

lemma length_trail_loop [simp]: "length (trail_loop i t) = length t"
  by (induction i t rule: trail_loop.induct) (subst trail_loop.simps, simp)

lemma nth_trail_copy:
  assumes "0 < i" and "i * 3 + 2 < length t"
  shows "trail_copy i t ! k = (if i * 3 \<le> k \<and> k < i * 3 + 3 then t ! (k - 3) else t ! k)"
proof -
  obtain m where m: "i = Suc m" using assms(1) by (cases i) auto
  have "k = m * 3 + 3 \<or> k = m * 3 + 4 \<or> k = m * 3 + 5 \<or> k < m * 3 + 3 \<or> m * 3 + 6 \<le> k"
    by arith
  then show ?thesis using assms(2) unfolding m
    by (elim disjE) (auto simp add: trail_copy_def Let_def nth_list_update numeral_eq_Suc)
qed

lemma nth_trail_loop:
  "i * 3 + 2 < length t \<Longrightarrow>
   trail_loop i t ! k = (if 3 \<le> k \<and> k < i * 3 + 3 then t ! (k - 3) else t ! k)"
proof (induction i t arbitrary: k rule: trail_loop.induct)
  case (1 i t)
  show ?case
  proof (cases "0 < i")
    case False
    then show ?thesis by (subst trail_loop.simps) auto
  next
    case True
    have len: "(i - 1) * 3 + 2 < length (trail_copy i t)" using 1(2) True by simp
    have step: "trail_loop i t = trail_loop (i - 1) (trail_copy i t)"
      using True by (subst trail_loop.simps) simp
    have i3: "(i - 1) * 3 + 3 = i * 3" using True by (cases i) simp_all
    show ?thesis
      unfolding step
      using True 1(2)
      by (simp only: "1.IH"[OF True len] i3 nth_trail_copy[OF True 1(2)]) auto
  qed
qed

lemma tPositions_animate:
  "tPositions (animate e s) =
     (trail_loop (trailCount - 1) (tPositions s))
       [0 := fround (vx (currentHandPos (animate e s))),
        1 := fround (vy (currentHandPos (animate e s))),
        2 := fround (vz (currentHandPos (animate e s)))]"
  by (simp add: animate_def Let_def)

lemma length_tPositions_animate [simp]:
  "length (tPositions (animate e s)) = length (tPositions s)"
  by (simp add: tPositions_animate)

lemma replicate_update_same: "(replicate n x)[i := x] = replicate n x"
proof (rule nth_equalityI)
  show "length ((replicate n x)[i := x]) = length (replicate n x)" by simp
next
  fix k assume "k < length ((replicate n x)[i := x])"
  then have "k < n" by simp
  then show "(replicate n x)[i := x] ! k = replicate n x ! k"
    by (cases "i = k") simp_all
qed

lemma trail_loop_zero:
  assumes "i * 3 + 2 < n"
  shows "trail_loop i (replicate n 0) = replicate n 0"
proof (rule nth_equalityI)
  show "length (trail_loop i (replicate n 0)) = length (replicate n (0::real))" by simp
next
  fix k assume "k < length (trail_loop i (replicate n 0))"
  then have k: "k < n" by simp
  have len: "i * 3 + 2 < length (replicate n (0::real))" using assms by simp
  show "trail_loop i (replicate n 0) ! k = replicate n 0 ! k"
    using k by (simp add: nth_trail_loop[OF len])
qed

lemma animate_origin:
  assumes "targetHandPos s = origin" and "currentHandPos s = origin"
    and "tPositions s = replicate (trailCount * 3) 0"
  shows "currentHandPos (animate e s) = origin
         \<and> tPositions (animate e s) = replicate (trailCount * 3) 0"
proof -
  have cur: "currentHandPos (animate e s) = origin"
    using assms(1,2) by (simp add: lerp_def origin_def)
  have "(trailCount - 1) * 3 + 2 < trailCount * 3" by (simp add: trailCount_def)
  then have "trail_loop (trailCount - 1) (tPositions s) = replicate (trailCount * 3) 0"
    unfolding assms(3) by (rule trail_loop_zero)
  then have "tPositions (animate e s) = replicate (trailCount * 3) 0"
    unfolding tPositions_animate cur by (simp add: origin_def replicate_update_same)
  with cur show ?thesis by simp
qed

lemma trail_frame_nth:
  assumes len: "length (tPositions s) = trailCount * 3"
  shows "tPositions (animate e s) ! 0 = fround (vx (currentHandPos (animate e s)))"
    and "tPositions (animate e s) ! 1 = fround (vy (currentHandPos (animate e s)))"
    and "tPositions (animate e s) ! 2 = fround (vz (currentHandPos (animate e s)))"
    and "1 \<le> i \<and> i < trailCount \<and> c < 3 \<Longrightarrow>
         tPositions (animate e s) ! (i * 3 + c) = tPositions s ! ((i - 1) * 3 + c)"
proof -
  have n: "trailCount = 100" by (simp add: trailCount_def)
  show "tPositions (animate e s) ! 0 = fround (vx (currentHandPos (animate e s)))"
    using len by (simp add: tPositions_animate n)
  show "tPositions (animate e s) ! 1 = fround (vy (currentHandPos (animate e s)))"
    using len by (simp add: tPositions_animate n)
  show "tPositions (animate e s) ! 2 = fround (vz (currentHandPos (animate e s)))"
    using len by (simp add: tPositions_animate n)
  assume ic: "1 \<le> i \<and> i < trailCount \<and> c < 3"
  have bound: "(trailCount - 1) * 3 + 2 < length (tPositions s)"
    using len by (simp add: n)
  have k3: "3 \<le> i * 3 + c" "i * 3 + c < (trailCount - 1) * 3 + 3"
    using ic by (simp_all add: n)
  have idx: "i * 3 + c - 3 = (i - 1) * 3 + c" using ic by (cases i) simp_all
  have "tPositions (animate e s) ! (i * 3 + c)
        = trail_loop (trailCount - 1) (tPositions s) ! (i * 3 + c)"
  proof -
    have "0 \<noteq> i * 3 + c" "1 \<noteq> i * 3 + c" "2 \<noteq> i * 3 + c" using k3(1) by arith+
    then show ?thesis by (simp add: tPositions_animate)
  qed
  also have "\<dots> = tPositions s ! (i * 3 + c - 3)"
    using k3 by (subst nth_trail_loop[OF bound]) simp
  finally show "tPositions (animate e s) ! (i * 3 + c) = tPositions s ! ((i - 1) * 3 + c)"
    by (simp only: idx)
qed

text \<open>
  C2, as amended. On every frame the trail array keeps its length, three numbers for each of
  the \<open>trailCount\<close> = 100 slots; every slot \<open>i\<close> from 1 to \<open>trailCount - 1\<close> holds after the
  frame what slot \<open>i - 1\<close> held before it; and slot 0 holds the smoothed pointer that the same
  frame computed, each component converted to float32 by the store.
\<close>

theorem trail_shift_frame:
  "length (tPositions s) = trailCount * 3 \<Longrightarrow>
   length (tPositions (animate elapsed s)) = trailCount * 3
   \<and> (\<forall>i c. 1 \<le> i \<and> i < trailCount \<and> c < 3 \<longrightarrow>
         tPositions (animate elapsed s) ! (i * 3 + c) = tPositions s ! ((i - 1) * 3 + c))
   \<and> tPositions (animate elapsed s) ! 0 = fround (vx (currentHandPos (animate elapsed s)))
   \<and> tPositions (animate elapsed s) ! 1 = fround (vy (currentHandPos (animate elapsed s)))
   \<and> tPositions (animate elapsed s) ! 2 = fround (vz (currentHandPos (animate elapsed s)))"
proof (intro impI conjI allI)
  assume len: "length (tPositions s) = trailCount * 3"
  show "length (tPositions (animate elapsed s)) = trailCount * 3"
    using len by simp
  show "tPositions (animate elapsed s) ! 0 = fround (vx (currentHandPos (animate elapsed s)))"
    by (rule trail_frame_nth(1)[OF len])
  show "tPositions (animate elapsed s) ! 1 = fround (vy (currentHandPos (animate elapsed s)))"
    by (rule trail_frame_nth(2)[OF len])
  show "tPositions (animate elapsed s) ! 2 = fround (vz (currentHandPos (animate elapsed s)))"
    by (rule trail_frame_nth(3)[OF len])
  fix i c :: nat
  assume "1 \<le> i \<and> i < trailCount \<and> c < 3"
  then show "tPositions (animate elapsed s) ! (i * 3 + c) = tPositions s ! ((i - 1) * 3 + c)"
    by (rule trail_frame_nth(4)[OF len])
qed

text \<open>
  The theorem at the second frame after a hand sample at the right edge: the first frame
  moved the pointer to \<open>(3.75, 0, 1.5)\<close> and stored it in slot 0, the second frame moves that
  slot to slot 1 and stores the new pointer \<open>(6.9375, 0, 2.775)\<close> in slot 0, where the last
  component becomes the float32 nearest to 2.775.
\<close>

theorem trail_shift_frame_witness:
  "length (tPositions (animate 0 hand_right)) = trailCount * 3
   \<and> length (tPositions (animate 1 (animate 0 hand_right))) = trailCount * 3
   \<and> tPositions (animate 0 hand_right) ! 0 = 3.75
   \<and> tPositions (animate 0 hand_right) ! 2 = 1.5
   \<and> tPositions (animate 0 hand_right) ! 3 = 0
   \<and> tPositions (animate 1 (animate 0 hand_right)) ! (1 * 3 + 0) = 3.75
   \<and> tPositions (animate 1 (animate 0 hand_right)) ! (1 * 3 + 2) = 1.5
   \<and> tPositions (animate 1 (animate 0 hand_right)) ! 0 = 6.9375
   \<and> tPositions (animate 1 (animate 0 hand_right)) ! 2 = 11639194 / 4194304"
proof -
  have h0: "length (tPositions hand_right) = trailCount * 3"
    by (simp add: hand_right_fields)
  have h1: "length (tPositions (animate 0 hand_right)) = trailCount * 3"
    using h0 by simp
  have n: "(1::nat) \<le> 1 \<and> 1 < trailCount \<and> (0::nat) < 3"
    "(1::nat) \<le> 1 \<and> 1 < trailCount \<and> (2::nat) < 3"
    by (simp_all add: trailCount_def)
  note first = trail_shift_frame [OF h0, of 0]
  note second = trail_shift_frame [OF h1, of 1]
  have a0: "tPositions (animate 0 hand_right) ! 0 = 3.75"
    using first fround_exact unfolding hand_right_frames by simp
  have a2: "tPositions (animate 0 hand_right) ! 2 = 1.5"
    using first fround_exact unfolding hand_right_frames by simp
  have "tPositions (animate 0 hand_right) ! (1 * 3 + 0) = tPositions hand_right ! ((1 - 1) * 3 + 0)"
    using first n(1) by blast
  then have a3: "tPositions (animate 0 hand_right) ! 3 = 0"
    by (simp add: hand_right_fields trailCount_def)
  have "tPositions (animate 1 (animate 0 hand_right)) ! (1 * 3 + 0)
        = tPositions (animate 0 hand_right) ! ((1 - 1) * 3 + 0)"
    using second n(1) by blast
  then have b3: "tPositions (animate 1 (animate 0 hand_right)) ! (1 * 3 + 0) = 3.75"
    using a0 by simp
  have "tPositions (animate 1 (animate 0 hand_right)) ! (1 * 3 + 2)
        = tPositions (animate 0 hand_right) ! ((1 - 1) * 3 + 2)"
    using second n(2) by blast
  then have b5: "tPositions (animate 1 (animate 0 hand_right)) ! (1 * 3 + 2) = 1.5"
    using a2 by (simp add: numeral_2_eq_2)
  have b0: "tPositions (animate 1 (animate 0 hand_right)) ! 0 = 6.9375"
    using second fround_exact unfolding hand_right_frames by simp
  have b2: "tPositions (animate 1 (animate 0 hand_right)) ! 2 = 11639194 / 4194304"
    using second fround_2775 unfolding hand_right_frames by simp
  have bl: "length (tPositions (animate 1 (animate 0 hand_right))) = trailCount * 3"
    using second by blast
  show ?thesis
    using h1 bl a0 a2 a3 b3 b5 b0 b2 by blast
qed

text \<open>
  C2 as stated fails at that frame: the pointer's third component is 2.775, and slot 0 holds
  the float32 nearest to it.
\<close>

theorem trail_slot0_counterexample:
  "vz (currentHandPos (frames [0, 1] hand_right)) = 2.775
   \<and> tPositions (frames [0, 1] hand_right) ! 2 = 11639194 / 4194304
   \<and> tPositions (frames [0, 1] hand_right) ! 2 \<noteq> vz (currentHandPos (frames [0, 1] hand_right))"
proof -
  have "length (tPositions (animate 0 hand_right)) = trailCount * 3"
    by (simp add: hand_right_fields)
  from trail_frame_nth(3)[OF this, of 1]
  have "tPositions (animate 1 (animate 0 hand_right)) ! 2 = 11639194 / 4194304"
    using fround_2775 unfolding hand_right_frames by simp
  moreover have "vz (currentHandPos (animate 1 (animate 0 hand_right))) = 2.775"
    unfolding hand_right_frames by simp
  ultimately show ?thesis
    unfolding frames.simps by simp
qed

text \<open>
  C10. The constructed scene has the pointer target, the smoothed pointer and every
  component of the trail at the origin, and any run of frames from it, with no hand update
  in between, leaves all three there.
\<close>

theorem initial_frames_stay_at_origin:
  "targetHandPos (init_scene rnd) = origin
   \<and> currentHandPos (init_scene rnd) = origin
   \<and> tPositions (init_scene rnd) = replicate (trailCount * 3) 0
   \<and> targetHandPos (frames es (init_scene rnd)) = origin
   \<and> currentHandPos (frames es (init_scene rnd)) = origin
   \<and> tPositions (frames es (init_scene rnd)) = replicate (trailCount * 3) 0"
proof -
  have init: "targetHandPos (init_scene rnd) = origin" "currentHandPos (init_scene rnd) = origin"
    "tPositions (init_scene rnd) = replicate (trailCount * 3) 0"
    by (simp_all add: init_scene_def origin_def)
  have inv: "targetHandPos s = origin \<Longrightarrow> currentHandPos s = origin \<Longrightarrow>
      tPositions s = replicate (trailCount * 3) 0 \<Longrightarrow>
      currentHandPos (frames es s) = origin
      \<and> tPositions (frames es s) = replicate (trailCount * 3) 0" for s
  proof (induction es arbitrary: s)
    case Nil
    then show ?case by simp
  next
    case (Cons e es)
    have "targetHandPos (animate e s) = origin" using Cons.prems(1) by simp
    then show ?case
      using Cons.IH[of "animate e s"] animate_origin[OF Cons.prems, of e] by simp
  qed
  show ?thesis using init inv[OF init] by simp
qed

section \<open>Pointer mapping and smoothing\<close>

text \<open>
  C3. A hand update at \<open>(x, y)\<close> sets the pointer target to
  \<open>((x - 0.5) * 50, (0.5 - y) * 40, 10)\<close>, and every frame moves each component of the
  smoothed pointer by 0.15 of its difference to the target.
\<close>

theorem pointer_mapping_and_smoothing:
  "targetHandPos (updateHandInteraction x y p s)
     = \<lparr>vx = (x - 0.5) * 50, vy = (0.5 - y) * 40, vz = 10\<rparr>
   \<and> vx (currentHandPos (animate elapsed s))
       = vx (currentHandPos s) + (vx (targetHandPos s) - vx (currentHandPos s)) * 0.15
   \<and> vy (currentHandPos (animate elapsed s))
       = vy (currentHandPos s) + (vy (targetHandPos s) - vy (currentHandPos s)) * 0.15
   \<and> vz (currentHandPos (animate elapsed s))
       = vz (currentHandPos s) + (vz (targetHandPos s) - vz (currentHandPos s)) * 0.15"
  by (simp add: updateHandInteraction_def animate_def lerp_def Let_def)











section \<open>Pinch detection and feedback\<close>

text \<open>
  C5. For a detected hand with its landmarks and a mounted scene, the loop hands the scene
  the flag "the distance of landmark 4 to landmark 8 is strictly below 0.06": at distance
  0.06 the hand is not pinching, at distance 0.059999 it is.
\<close>

theorem pinch_threshold:
  "detected r \<Longrightarrow> 10 \<le> length (landmarks r) \<Longrightarrow> sceneRef a = Some sc \<Longrightarrow>
   detectLoop (Some r) a
     = Inr (a\<lparr>handDetected := True,
             sceneRef := Some (updateHandInteraction (lx (landmarks r ! 9)) (ly (landmarks r ! 9))
               (sqrt ((lx (landmarks r ! 4) - lx (landmarks r ! 8))\<^sup>2
                      + (ly (landmarks r ! 4) - ly (landmarks r ! 8))\<^sup>2) < 0.06) sc)\<rparr>)
   \<and> isPinchingRef (updateHandInteraction (lx (landmarks r ! 9)) (ly (landmarks r ! 9))
         (isPinching (landmarks r ! 4) (landmarks r ! 8)) sc)
       = (pinch_distance (landmarks r ! 4) (landmarks r ! 8) < 0.06)
   \<and> (pinch_distance (landmarks r ! 4) (landmarks r ! 8) = 0.06 \<longrightarrow>
        \<not> isPinching (landmarks r ! 4) (landmarks r ! 8))
   \<and> (pinch_distance (landmarks r ! 4) (landmarks r ! 8) = 0.059999 \<longrightarrow>
        isPinching (landmarks r ! 4) (landmarks r ! 8))"
  by (simp add: detectLoop_def isPinching_def pinch_distance_def updateHandInteraction_def Let_def)

theorem pinch_threshold_witness:
  "detected (hand_at 0.06) \<and> 10 \<le> length (landmarks (hand_at 0.06))
   \<and> sceneRef mounted = Some (init_scene zero_draws)
   \<and> pinch_distance (landmarks (hand_at 0.06) ! 4) (landmarks (hand_at 0.06) ! 8) = 0.06
   \<and> \<not> isPinching (landmarks (hand_at 0.06) ! 4) (landmarks (hand_at 0.06) ! 8)
   \<and> pinch_distance (landmarks (hand_at 0.059999) ! 4) (landmarks (hand_at 0.059999) ! 8)
       = 0.059999
   \<and> isPinching (landmarks (hand_at 0.059999) ! 4) (landmarks (hand_at 0.059999) ! 8)"
proof -
  have h1: "detected (hand_at d)" for d by (simp add: hand_at_fields)
  have h2: "10 \<le> length (landmarks (hand_at d))" for d by (simp add: hand_at_fields)
  have h3: "sceneRef mounted = Some (init_scene zero_draws)" by (simp add: mounted_def)
  have d1: "pinch_distance (landmarks (hand_at 0.06) ! 4) (landmarks (hand_at 0.06) ! 8) = 0.06"
    by (rule pinch_distance_hand_at) simp
  have d2: "pinch_distance (landmarks (hand_at 0.059999) ! 4) (landmarks (hand_at 0.059999) ! 8)
      = 0.059999"
    by (rule pinch_distance_hand_at) simp
  show ?thesis
    using h1 h2 h3 d1 d2 pinch_threshold [OF h1 [of "0.06"] h2 [of "0.06"] h3]
      pinch_threshold [OF h1 [of "0.059999"] h2 [of "0.059999"] h3]
    by blast
qed

text \<open>
  C6. On every frame the vortex material gets opacity 0.8 and size 0.25 exactly when the
  pinching flag is set, and 0.4 and 0.12 otherwise; a frame that follows a hand update sees
  the flag of that update, and the material takes no other value.
\<close>

theorem pinch_feedback_binary:
  "vMat_opacity (animate elapsed s) = (if isPinchingRef s then 0.8 else 0.4)
   \<and> vMat_size (animate elapsed s) = (if isPinchingRef s then 0.25 else 0.12)
   \<and> ((vMat_opacity (animate elapsed s) = 0.8 \<and> vMat_size (animate elapsed s) = 0.25)
        = isPinchingRef s)
   \<and> ((vMat_opacity (animate elapsed s) = 0.4 \<and> vMat_size (animate elapsed s) = 0.12)
        = (\<not> isPinchingRef s))
   \<and> vMat_opacity (animate elapsed (updateHandInteraction x y p s)) = (if p then 0.8 else 0.4)
   \<and> vMat_size (animate elapsed (updateHandInteraction x y p s)) = (if p then 0.25 else 0.12)"
  by (simp add: animate_def updateHandInteraction_def Let_def)

section \<open>The vortex\<close>

lemma length_vortex_step [simp]: "length (vortex_step e vel i p) = length p"
  by (simp add: vortex_step_def Let_def)

lemma length_vortex_loop [simp]: "length (vortex_loop e vel n i p) = length p"
  by (induction e vel n i p rule: vortex_loop.induct) (subst vortex_loop.simps, simp)













section \<open>Hand absence\<close>

text \<open>
  C8. When the detector returns nothing or reports no hand, the loop only clears the
  \<open>handDetected\<close> flag: the scene gets no sample, and the frames that follow keep the
  pointer target and the pinching flag of the last sample.
\<close>

theorem hand_absent_keeps_target:
  "\<not> hand_present result \<Longrightarrow>
   detectLoop result a = Inr (a\<lparr>handDetected := False\<rparr>)
   \<and> sceneRef (a\<lparr>handDetected := False\<rparr>) = sceneRef a
   \<and> targetHandPos (animate elapsed s) = targetHandPos s
   \<and> isPinchingRef (animate elapsed s) = isPinchingRef s
   \<and> targetHandPos (frames es s) = targetHandPos s
   \<and> isPinchingRef (frames es s) = isPinchingRef s"
proof -
  assume "\<not> hand_present result"
  then have "detectLoop result a = Inr (a\<lparr>handDetected := False\<rparr>)"
    by (cases result) (simp_all add: hand_present_def detectLoop_def)
  moreover have "isPinchingRef (frames es s) = isPinchingRef s"
    by (induction es arbitrary: s) simp_all
  ultimately show ?thesis by simp
qed

theorem hand_absent_keeps_target_witness:
  "\<not> hand_present None
   \<and> detectLoop None tracked = Inr \<lparr>handDetected = False, sceneRef = Some hand_right\<rparr>
   \<and> \<not> hand_present (Some \<lparr>detected = False, landmarks = []\<rparr>)
   \<and> detectLoop (Some \<lparr>detected = False, landmarks = []\<rparr>) tracked
       = Inr \<lparr>handDetected = False, sceneRef = Some hand_right\<rparr>
   \<and> targetHandPos (frames [0, 1] hand_right) = \<lparr>vx = 25, vy = 0, vz = 10\<rparr>"
proof -
  have h1: "\<not> hand_present None" by (simp add: hand_present_def)
  have h2: "\<not> hand_present (Some \<lparr>detected = False, landmarks = []\<rparr>)" by (simp add: hand_present_def)
  show ?thesis
    using h1 h2 hand_absent_keeps_target [OF h1, of tracked 0 hand_right "[0, 1]"]
      hand_absent_keeps_target [OF h2, of tracked 0 hand_right "[0, 1]"]
    by (simp add: tracked_def hand_right_fields)
qed

section \<open>Rotation feedback\<close>

text \<open>
  C9, as amended. Each hand update, that is each call of \<^verbatim>\<open>updateHandInteraction\<close> by the
  gesture loop, and not each frame of the animator, moves the rotation
  of the main group by 0.05 of its difference to a target computed from the raw sample,
  \<open>(y - 0.5) * 0.3\<close> about x and \<open>(x - 0.5) * 0.6\<close> about y. It does not touch the smoothed
  pointer, and the frames, which smooth the pointer, do not touch the rotation.
\<close>

theorem rotation_feedback:
  "rotation_x (updateHandInteraction x y p s)
     = rotation_x s + ((y - 0.5) * 0.3 - rotation_x s) * 0.05
   \<and> rotation_y (updateHandInteraction x y p s)
       = rotation_y s + ((x - 0.5) * 0.6 - rotation_y s) * 0.05
   \<and> currentHandPos (updateHandInteraction x y p s) = currentHandPos s
   \<and> rotation_x (animate elapsed s) = rotation_x s
   \<and> rotation_y (animate elapsed s) = rotation_y s"
  by (simp add: updateHandInteraction_def animate_def Let_def)

text \<open>
  C9 as stated fails: the frame after a hand sample at the right edge leaves the rotation
  about y at 0.015, where a nudge towards the target of that sample, 0.3, would give 0.02925.
\<close>

theorem rotation_frame_counterexample:
  "rotation_y hand_right = 0.015
   \<and> rotation_y (animate 0 hand_right) = 0.015
   \<and> rotation_y (animate 0 hand_right)
       \<noteq> rotation_y hand_right + ((1 - 0.5) * 0.6 - rotation_y hand_right) * 0.05"
  by (simp add: hand_right_fields)

section \<open>Memory panels\<close>

lemma opacity_memory_frame:
  "opacity (memory_frame e m) = (if e - birth_or_0 m < 2 then (e - birth_or_0 m) / 2 else opacity m)"
  by (simp add: memory_frame_def Let_def)

lemma birth_memory_frame [simp]: "birth (memory_frame e m) = birth m"
  by (simp add: memory_frame_def Let_def)

lemma birth_or_0_memory_frame [simp]: "birth_or_0 (memory_frame e m) = birth_or_0 m"
  by (simp add: birth_or_0_def)

text \<open>
  C1, as amended. For a memory panel born at \<open>b\<close>, a frame at age \<open>elapsed - b\<close> sets the
  opacity to 0 at age 0, to 0.5 at age 1, and to half the age at every age below 2. A frame
  at an age of 2 or more leaves the opacity as it was; an opacity below 1 stays below 1, and
  a later frame never lowers it.
\<close>

theorem memory_fade_ramp:
  "i < length (memories s) \<Longrightarrow> birth (memories s ! i) = Some b \<Longrightarrow>
   (elapsed - b = 0 \<longrightarrow> opacity (memories (animate elapsed s) ! i) = 0)
   \<and> (elapsed - b = 1 \<longrightarrow> opacity (memories (animate elapsed s) ! i) = 0.5)
   \<and> (elapsed - b < 2 \<longrightarrow> opacity (memories (animate elapsed s) ! i) = (elapsed - b) / 2)
   \<and> (2 \<le> elapsed - b \<longrightarrow>
        opacity (memories (animate elapsed s) ! i) = opacity (memories s ! i))
   \<and> (opacity (memories s ! i) < 1 \<longrightarrow> opacity (memories (animate elapsed s) ! i) < 1)
   \<and> (elapsed \<le> later \<longrightarrow>
        opacity (memories (animate elapsed s) ! i)
          \<le> opacity (memories (animate later (animate elapsed s)) ! i))
   \<and> birth (memories (animate elapsed s) ! i) = Some b"
  by (simp add: opacity_memory_frame birth_or_0_def)

theorem memory_fade_ramp_witness:
  "0 < length (memories one_memory)
   \<and> birth (memories one_memory ! 0) = Some 0
   \<and> opacity (memories (animate 1 one_memory) ! 0) = 0.5
   \<and> opacity (memories (animate 0 one_memory) ! 0) = 0
   \<and> opacity (memories (animate 3 one_memory) ! 0) = opacity (memories one_memory ! 0)
   \<and> opacity (memories (animate 1 one_memory) ! 0)
       \<le> opacity (memories (animate 3 (animate 1 one_memory)) ! 0)"
proof -
  have h1: "0 < length (memories one_memory)" by (simp add: memories_one_memory)
  have h2: "birth (memories one_memory ! 0) = Some 0"
    by (simp add: memories_one_memory new_memory_def Let_def)
  show ?thesis
    using h1 h2 memory_fade_ramp [OF h1 h2, of 1 3] memory_fade_ramp [OF h1 h2, of 0 0]
      memory_fade_ramp [OF h1 h2, of 3 3]
    by simp
qed

text \<open>
  C1 as stated fails: a panel born at time 0 and drawn at the times 0, 1 and 3 has opacity
  0.5 at age 3, and a panel first drawn at age 3 has opacity 0; neither is 1.
\<close>

theorem memory_fade_counterexample:
  "map opacity (memories (frames [0, 1, 3] one_memory)) = [1 / 2]
   \<and> map opacity (memories (frames [3] one_memory)) = [0]
   \<and> map opacity (memories (frames [0, 1, 3] one_memory)) \<noteq> [1]"
  by (simp add: memories_one_memory opacity_memory_frame birth_or_0_def new_memory_def Let_def)

end
